theory Spec2Isabelle
  imports Main "HOL-Library.Word"
begin

unbundle bit_operations_syntax

section \<open>Python runtime notions used by the two modules\<close>

text \<open>
  Exceptions that can occur while the modelled code runs. \<open>ConnectionError\<close> is the
  exception of the \<open>requests\<close> library that \<open>interfaceUtils.py\<close> catches;
  \<open>ReadTimeout\<close> stands for a \<open>requests\<close> exception that is not a
  \<open>ConnectionError\<close> and is therefore never caught there. \<open>IndexError\<close>,
  \<open>KeyError\<close> and \<open>ValueError\<close> are Python's own. \<open>RangeError\<close> and
  \<open>MalformedPayload\<close> are the two failures of the packed integer codec.
\<close>

datatype py_exception =
    ConnectionError
  | ReadTimeout
  | IndexError
  | KeyError
  | ValueError
  | RangeError
  | MalformedPayload

text \<open>Decimal text of a Python \<open>int\<close>, as \<open>'{}'.format\<close> renders it.\<close>

definition digit_chr :: "nat \<Rightarrow> char" where
  "digit_chr d = ''0123456789'' ! d"

function str_nat :: "nat \<Rightarrow> string" where
  "str_nat n = (if n < 10 then [digit_chr n] else str_nat (n div 10) @ [digit_chr (n mod 10)])"
  by pat_completeness auto
termination
  by (relation "measure (\<lambda>n. n)") auto

definition str_int :: "int \<Rightarrow> string" where
  "str_int i = (if i < 0 then CHR ''-'' # str_nat (nat (- i)) else str_nat (nat i))"

text \<open>\<open>str.join(sep, parts)\<close>.\<close>

fun str_join :: "string \<Rightarrow> string list \<Rightarrow> string" where
  "str_join sep [] = []"
| "str_join sep [p] = p"
| "str_join sep (p # q # ps) = p @ sep @ str_join sep (q # ps)"

text \<open>
  Indexing a Python list (and one axis of a numpy array): an index \<open>i\<close> with
  \<open>-n \<le> i < 0\<close> counts from the end, an index outside \<open>[-n, n)\<close> raises
  \<open>IndexError\<close>.
\<close>

definition py_norm :: "nat \<Rightarrow> int \<Rightarrow> nat option" where
  "py_norm n i =
     (if 0 \<le> i \<and> i < int n then Some (nat i)
      else if - int n \<le> i \<and> i < 0 then Some (nat (i + int n))
      else None)"

definition py_getitem :: "'a list \<Rightarrow> int \<Rightarrow> py_exception + 'a" where
  "py_getitem xs i =
     (case py_norm (length xs) i of None \<Rightarrow> Inl IndexError | Some k \<Rightarrow> Inr (xs ! k))"

definition py_setitem :: "'a list \<Rightarrow> int \<Rightarrow> 'a \<Rightarrow> py_exception + 'a list" where
  "py_setitem xs i v =
     (case py_norm (length xs) i of None \<Rightarrow> Inl IndexError | Some k \<Rightarrow> Inr (xs[k := v]))"

text \<open>
  A \<open>for\<close> loop over a list whose body may raise: the first exception ends the loop and
  is the loop's outcome; the state reached so far is kept.
\<close>

fun for_each :: "'a list \<Rightarrow> ('a \<Rightarrow> 's \<Rightarrow> (py_exception + unit) \<times> 's) \<Rightarrow> 's
    \<Rightarrow> (py_exception + unit) \<times> 's" where
  "for_each [] body s = (Inr (), s)"
| "for_each (a # as) body s =
     (case body a s of
        (Inl e, s') \<Rightarrow> (Inl e, s')
      | (Inr u, s') \<Rightarrow> for_each as body s')"

section \<open>interfaceUtils.py: class Interface\<close>

text \<open>
  The fields of an \<open>Interface\<close> object. \<open>buffering\<close> is the private field
  \<open>__buffering\<close>; \<open>buffer\<close> holds the pending \<open>(x, y, z, str)\<close> tuples.
\<close>

record interface =
  offset :: "int \<times> int \<times> int"
  buffering :: bool
  bufferlimit :: int
  buffer :: "(int \<times> int \<times> int \<times> string) list"

text \<open>
  The HTTP server behind \<open>requests.put\<close>. A request is its URL and its body. The
  server's answer to a request may depend on every request it has seen before; it is
  either a response (whose text is kept) or an exception raised by \<open>requests.put\<close>.
  The list of requests seen so far is carried next to the object as the second component
  of the state.
\<close>

type_synonym request = "string \<times> string"

datatype put_outcome = Response string | Raises py_exception

type_synonym transport = "request list \<Rightarrow> request \<Rightarrow> put_outcome"

type_synonym world = "interface \<times> request list"

definition requests_put :: "transport \<Rightarrow> string \<Rightarrow> string \<Rightarrow> request list
    \<Rightarrow> put_outcome \<times> request list" where
  "requests_put tr url body seen = (tr seen (url, body), seen @ [(url, body)])"

definition blocks_url :: "int \<Rightarrow> int \<Rightarrow> int \<Rightarrow> string" where
  "blocks_url x y z =
     ''http://localhost:9000/blocks?x='' @ str_int x @ ''&y='' @ str_int y @ ''&z='' @ str_int z"

text \<open>\<open>__init__(self, offset=(0, 0, 0), buffering=False, bufferlimit=4096)\<close>.\<close>

definition Interface_init :: "int \<times> int \<times> int \<Rightarrow> bool \<Rightarrow> int \<Rightarrow> interface" where
  "Interface_init offset_arg buffering_arg bufferlimit_arg =
     \<lparr>offset = offset_arg, buffering = False, bufferlimit = 4096, buffer = []\<rparr>"

text \<open>\<open>local2global\<close>: each argument that is not \<open>None\<close> is shifted by the offset.\<close>

definition local2global :: "interface \<Rightarrow> int option \<Rightarrow> int option \<Rightarrow> int option \<Rightarrow> int list" where
  "local2global self x y z =
     (case x of None \<Rightarrow> [] | Some a \<Rightarrow> [a + fst (offset self)]) @
     (case y of None \<Rightarrow> [] | Some b \<Rightarrow> [b + fst (snd (offset self))]) @
     (case z of None \<Rightarrow> [] | Some c \<Rightarrow> [c + snd (snd (offset self))])"

text \<open>The unpacking \<open>x, y, z = ...\<close> of a list; any other length raises \<open>ValueError\<close>.\<close>

fun unpack3 :: "int list \<Rightarrow> py_exception + (int \<times> int \<times> int)" where
  "unpack3 [a, b, c] = Inr (a, b, c)"
| "unpack3 other = Inl ValueError"

text \<open>One line of the batched body: \<open>'{} {} {} {}'.format(*bp)\<close>.\<close>

definition format_entry :: "int \<times> int \<times> int \<times> string \<Rightarrow> string" where
  "format_entry bp =
     (case bp of (x, y, z, s) \<Rightarrow> str_int x @ '' '' @ str_int y @ '' '' @ str_int z @ '' '' @ s)"

definition batch_body :: "(int \<times> int \<times> int \<times> string) list \<Rightarrow> string" where
  "batch_body entries = str_join [CHR 0x0A] (map format_entry entries)"

text \<open>
  \<open>sendBlocks(self, x=0, y=0, z=0, retries=5)\<close>. The body is rebuilt from the buffer at
  every attempt. A response clears the buffer and returns the response's text. A
  \<open>ConnectionError\<close> is caught: with \<open>retries > 0\<close> the method calls itself with one
  retry less, otherwise it falls off its end and returns \<open>None\<close>. Any other exception
  is not caught. The \<open>print\<close> of the handler is not modelled.
\<close>

function sendBlocks :: "transport \<Rightarrow> int \<Rightarrow> int \<Rightarrow> int \<Rightarrow> int \<Rightarrow> world
    \<Rightarrow> (py_exception + string option) \<times> world" where
  "sendBlocks tr x y z retries w =
     (let url = blocks_url x y z;
          body = batch_body (buffer (fst w))
      in case requests_put tr url body (snd w) of
           (Response text, seen) \<Rightarrow> (Inr (Some text), ((fst w)\<lparr>buffer := []\<rparr>, seen))
         | (Raises e, seen) \<Rightarrow>
             if e = ConnectionError then
               (if retries > 0 then sendBlocks tr x y z (retries - 1) (fst w, seen)
                else (Inr None, (fst w, seen)))
             else (Inl e, (fst w, seen)))"
  by pat_completeness auto
termination
  by (relation "measure (\<lambda>(tr, x, y, z, retries, w). nat retries)") auto

text \<open>\<open>placeBlock\<close>: one \<open>put\<close>; a \<open>ConnectionError\<close> is answered by \<open>"0"\<close>.\<close>

definition placeBlock :: "transport \<Rightarrow> int \<Rightarrow> int \<Rightarrow> int \<Rightarrow> string \<Rightarrow> world
    \<Rightarrow> (py_exception + string) \<times> world" where
  "placeBlock tr x y z s w =
     (case unpack3 (local2global (fst w) (Some x) (Some y) (Some z)) of
        Inl e \<Rightarrow> (Inl e, w)
      | Inr (gx, gy, gz) \<Rightarrow>
          (case requests_put tr (blocks_url gx gy gz) s (snd w) of
             (Response text, seen) \<Rightarrow> (Inr text, (fst w, seen))
           | (Raises e, seen) \<Rightarrow>
               if e = ConnectionError then (Inr ''0'', (fst w, seen))
               else (Inl e, (fst w, seen))))"

text \<open>\<open>placeBlockBatched(self, x, y, z, str, limit=50)\<close>.\<close>

definition placeBlockBatched :: "transport \<Rightarrow> int \<Rightarrow> int \<Rightarrow> int \<Rightarrow> string \<Rightarrow> int \<Rightarrow> world
    \<Rightarrow> (py_exception + string option) \<times> world" where
  "placeBlockBatched tr x y z s limit w =
     (case unpack3 (local2global (fst w) (Some x) (Some y) (Some z)) of
        Inl e \<Rightarrow> (Inl e, w)
      | Inr (gx, gy, gz) \<Rightarrow>
          (let self = (fst w)\<lparr>buffer := buffer (fst w) @ [(gx, gy, gz, s)]\<rparr>
           in if int (length (buffer self)) \<ge> limit
              then sendBlocks tr 0 0 0 5 (self, snd w)
              else (Inr None, (self, snd w))))"

text \<open>\<open>setBlock\<close> has no \<open>return\<close>: it yields \<open>None\<close> unless the callee raises.\<close>

definition setBlock :: "transport \<Rightarrow> int \<Rightarrow> int \<Rightarrow> int \<Rightarrow> string \<Rightarrow> world
    \<Rightarrow> (py_exception + unit) \<times> world" where
  "setBlock tr x y z s w =
     (if buffering (fst w) then
        (case placeBlockBatched tr x y z s (bufferlimit (fst w)) w of
           (Inl e, w') \<Rightarrow> (Inl e, w')
         | (Inr r, w') \<Rightarrow> (Inr (), w'))
      else
        (case placeBlock tr x y z s w of
           (Inl e, w') \<Rightarrow> (Inl e, w')
         | (Inr r, w') \<Rightarrow> (Inr (), w')))"

text \<open>\<open>fill\<close>: three nested \<open>range\<close> loops over the corners after \<open>local2global\<close>.\<close>

definition fill :: "transport \<Rightarrow> int \<Rightarrow> int \<Rightarrow> int \<Rightarrow> int \<Rightarrow> int \<Rightarrow> int \<Rightarrow> string \<Rightarrow> world
    \<Rightarrow> (py_exception + unit) \<times> world" where
  "fill tr x1 y1 z1 x2 y2 z2 s w =
     (case unpack3 (local2global (fst w) (Some x1) (Some y1) (Some z1)) of
        Inl e \<Rightarrow> (Inl e, w)
      | Inr (gx1, gy1, gz1) \<Rightarrow>
     (case unpack3 (local2global (fst w) (Some x2) (Some y2) (Some z2)) of
        Inl e \<Rightarrow> (Inl e, w)
      | Inr (gx2, gy2, gz2) \<Rightarrow>
          (let xlo = min gx1 gx2; ylo = min gy1 gy2; zlo = min gz1 gz2;
               xhi = max gx1 gx2; yhi = max gy1 gy2; zhi = max gz1 gz2
           in for_each [xlo..xhi] (\<lambda>x.
                for_each [ylo..yhi] (\<lambda>y.
                  for_each [zlo..zhi] (\<lambda>z. setBlock tr x y z s))) w)))"

text \<open>
  The setter of the property \<open>Buffering\<close>: the field is assigned first; when the new
  value is false, \<open>sendBlocks()\<close> runs with its default arguments. The two
  \<open>print\<close> calls are not modelled.
\<close>

definition Buffering_set :: "transport \<Rightarrow> bool \<Rightarrow> world \<Rightarrow> (py_exception + unit) \<times> world" where
  "Buffering_set tr v w =
     (let self = (fst w)\<lparr>buffering := v\<rparr>
      in if buffering self then (Inr (), (self, snd w))
         else (case sendBlocks tr 0 0 0 5 (self, snd w) of
                 (Inl e, w') \<Rightarrow> (Inl e, w')
               | (Inr r, w') \<Rightarrow> (Inr (), w')))"

text \<open>\<open>toggleBuffer\<close>: assigns the negated flag through the setter and returns the flag.\<close>

definition toggleBuffer :: "transport \<Rightarrow> world \<Rightarrow> (py_exception + bool) \<times> world" where
  "toggleBuffer tr w =
     (case Buffering_set tr (\<not> buffering (fst w)) w of
        (Inl e, w') \<Rightarrow> (Inl e, w')
      | (Inr u, w') \<Rightarrow> (Inr (buffering (fst w')), w'))"

subsection \<open>Notions used to state the properties of the write path\<close>

text \<open>The request a flush sends: the URL built from its arguments and the batched body.\<close>

definition flush_request :: "int \<Rightarrow> int \<Rightarrow> int \<Rightarrow> interface \<Rightarrow> request" where
  "flush_request x y z self = (blocks_url x y z, batch_body (buffer self))"

text \<open>The tuple that a call \<open>setBlock(x, y, z, s)\<close> appends in buffered mode.\<close>

definition to_global :: "interface \<Rightarrow> int \<times> int \<times> int \<times> string \<Rightarrow> int \<times> int \<times> int \<times> string" where
  "to_global self c =
     (case c of (x, y, z, s) \<Rightarrow>
        (x + fst (offset self), y + fst (snd (offset self)), z + snd (snd (offset self)), s))"

text \<open>A caller that issues a sequence of \<open>setBlock\<close> calls, one after the other.\<close>

definition setBlocks :: "transport \<Rightarrow> (int \<times> int \<times> int \<times> string) list \<Rightarrow> world
    \<Rightarrow> (py_exception + unit) \<times> world" where
  "setBlocks tr calls w = for_each calls (\<lambda>c. case c of (x, y, z, s) \<Rightarrow> setBlock tr x y z s) w"

text \<open>
  A server that raises nothing but \<open>ConnectionError\<close>, and the points of the cuboid
  spanned by two corners, in the order of the three nested loops of \<open>fill\<close>.
\<close>

definition no_other_fault :: "transport \<Rightarrow> bool" where
  "no_other_fault tr \<longleftrightarrow>
     (\<forall>seen req. (\<exists>t. tr seen req = Response t) \<or> tr seen req = Raises ConnectionError)"

definition cuboid :: "int \<Rightarrow> int \<Rightarrow> int \<Rightarrow> int \<Rightarrow> int \<Rightarrow> int \<Rightarrow> (int \<times> int \<times> int) list" where
  "cuboid x1 y1 z1 x2 y2 z2 =
     concat (map (\<lambda>x. concat (map (\<lambda>y. map (\<lambda>z. (x, y, z)) [min z1 z2..max z1 z2])
                                    [min y1 y2..max y1 y2]))
                 [min x1 x2..max x1 x2])"

text \<open>Three servers and three objects used as concrete inputs.\<close>

definition always_ok :: transport where
  "always_ok seen req = Response ''1''"

definition always_down :: transport where
  "always_down seen req = Raises ConnectionError"

definition down_twice :: transport where
  "down_twice seen req = (if length seen < 2 then Raises ConnectionError else Response ''1'')"

definition shifted_direct :: interface where
  "shifted_direct = \<lparr>offset = (1, 2, 3), buffering = False, bufferlimit = 4096, buffer = []\<rparr>"

definition buffered_three :: interface where
  "buffered_three = \<lparr>offset = (10, 0, -5), buffering = True, bufferlimit = 3, buffer = []\<rparr>"

definition one_pending :: interface where
  "one_pending = \<lparr>offset = (0, 0, 0), buffering = True, bufferlimit = 4096,
                   buffer = [(1, 2, 3, ''stone'')]\<rparr>"

section \<open>gdpc/worldLoader.py: class WorldSlice\<close>

subsection \<open>The decoded chunk data and numpy arrays\<close>

text \<open>
  The parsed NBT file is an input of the model: \<open>nbtfile['Chunks']\<close> is a list of chunks,
  each with its \<open>Heightmaps\<close> compound (name to raw long array) and its \<open>Sections\<close>
  list. A section has a \<open>Y\<close> tag and may have \<open>BlockStates\<close> and \<open>Palette\<close> tags. A
  palette entry is a compound, of which only string-valued tags such as \<open>Name\<close> are kept.
  Dictionaries and compounds are association lists read with \<open>map_of\<close>.
\<close>

type_synonym compound = "(string \<times> string) list"

record section_tag =
  Y :: int
  BlockStates :: "64 word list option"
  Palette :: "compound list option"

record chunk_tag =
  Heightmaps :: "(string \<times> 64 word list) list"
  Sections :: "section_tag list"

text \<open>Storing under a key of a \<open>dict\<close>: an existing key keeps its place.\<close>

fun dict_set :: "'k \<Rightarrow> 'v \<Rightarrow> ('k \<times> 'v) list \<Rightarrow> ('k \<times> 'v) list" where
  "dict_set k v [] = [(k, v)]"
| "dict_set k v ((k', v') # kvs) =
     (if k = k' then (k, v) # kvs else (k', v') # dict_set k v kvs)"

text \<open>
  A two-dimensional numpy array of integers, stored row by row. \<open>np.zeros\<close> rejects a
  negative dimension; indexing follows \<open>py_norm\<close> on each axis.
\<close>

record ndarray =
  nrows :: nat
  ncols :: nat
  cells :: "int list"

definition np_zeros :: "int \<Rightarrow> int \<Rightarrow> py_exception + ndarray" where
  "np_zeros a b =
     (if a < 0 \<or> b < 0 then Inl ValueError
      else Inr \<lparr>nrows = nat a, ncols = nat b, cells = replicate (nat a * nat b) 0\<rparr>)"

definition np_setitem :: "ndarray \<Rightarrow> int \<Rightarrow> int \<Rightarrow> int \<Rightarrow> py_exception + ndarray" where
  "np_setitem a i j v =
     (case py_norm (nrows a) i of
        None \<Rightarrow> Inl IndexError
      | Some r \<Rightarrow>
          (case py_norm (ncols a) j of
             None \<Rightarrow> Inl IndexError
           | Some c \<Rightarrow> Inr (a\<lparr>cells := (cells a)[r * ncols a + c := v]\<rparr>)))"

text \<open>\<open>range(n)\<close>, and \<open>int(ceil(d / 16))\<close> for an integer \<open>d\<close>.\<close>

definition py_range :: "int \<Rightarrow> int list" where
  "py_range n = [0 .. n - 1]"

definition ceil_div16 :: "int \<Rightarrow> int" where
  "ceil_div16 d = - ((- d) div 16)"

text \<open>\<open>ceil(log2(n))\<close> for a list length \<open>n\<close>; for \<open>n = 0\<close> the source's \<open>max(4, -inf)\<close> is 4.\<close>

function ceil_log2 :: "nat \<Rightarrow> nat" where
  "ceil_log2 n = (if n \<le> 1 then 0 else Suc (ceil_log2 ((n + 1) div 2)))"
  by pat_completeness auto
termination
  by (relation "measure (\<lambda>n. n)") auto

text \<open>Reading and writing \<open>a[x][z][y]\<close> in a list of lists of lists.\<close>

definition get3 :: "'a list list list \<Rightarrow> int \<Rightarrow> int \<Rightarrow> int \<Rightarrow> py_exception + 'a" where
  "get3 a x z y =
     (case py_getitem a x of
        Inl e \<Rightarrow> Inl e
      | Inr plane \<Rightarrow>
          (case py_getitem plane z of
             Inl e \<Rightarrow> Inl e
           | Inr column \<Rightarrow> py_getitem column y))"

definition set3 :: "'a list list list \<Rightarrow> int \<Rightarrow> int \<Rightarrow> int \<Rightarrow> 'a \<Rightarrow> py_exception + 'a list list list" where
  "set3 a x z y v =
     (case py_norm (length a) x of
        None \<Rightarrow> Inl IndexError
      | Some i \<Rightarrow>
          (case py_norm (length (a ! i)) z of
             None \<Rightarrow> Inl IndexError
           | Some j \<Rightarrow>
               (case py_norm (length (a ! i ! j)) y of
                  None \<Rightarrow> Inl IndexError
                | Some k \<Rightarrow> Inr (a[i := (a ! i)[j := (a ! i ! j)[k := v]]]))))"

subsection \<open>The packed integer array\<close>

text \<open>
  Modelled from the spec: class \<open>BitArray\<close> of \<open>gdpc/bitarray.py\<close>, which
  \<open>worldLoader.py\<close> imports, is not among the sources. The spec's PackedIntArray
  is: entriesPerWord = floor(64 / b); wordIndex = i / entriesPerWord;
  bitOffset = (i mod entriesPerWord) * b;
  result = (words[wordIndex] >> bitOffset) & ((1 << b) - 1), defined for 0 <= i < n and
  failing with RangeError otherwise; decoding past the end of the words is an error;
  construction fails with MalformedPayload when the words are fewer than the n entries
  need.
\<close>

record BitArray =
  bitsPerEntry :: nat
  arraySize :: nat
  longArray :: "64 word list"

definition BitArray_init :: "nat \<Rightarrow> nat \<Rightarrow> 64 word list \<Rightarrow> py_exception + BitArray" where
  "BitArray_init b n ws =
     (let entriesPerWord = 64 div b
      in if length ws < (n + entriesPerWord - 1) div entriesPerWord then Inl MalformedPayload
         else Inr \<lparr>bitsPerEntry = b, arraySize = n, longArray = ws\<rparr>)"

definition BitArray_getAt :: "BitArray \<Rightarrow> int \<Rightarrow> py_exception + int" where
  "BitArray_getAt ba i =
     (if 0 \<le> i \<and> i < int (arraySize ba) then
        (let entriesPerWord = 64 div bitsPerEntry ba;
             wordIndex = nat i div entriesPerWord;
             bitOffset = (nat i mod entriesPerWord) * bitsPerEntry ba
         in if wordIndex < length (longArray ba)
            then Inr (uint (drop_bit bitOffset (longArray ba ! wordIndex)
                            AND (push_bit (bitsPerEntry ba) 1 - 1)))
            else Inl RangeError)
      else Inl RangeError)"

subsection \<open>CachedSection and WorldSlice\<close>

text \<open>
  The two classes. The type \<open>'ba\<close> is the bit array class: the functions below take its
  constructor \<open>newBitArray\<close> and its method \<open>getAt\<close> as arguments, and
  \<open>BitArray_init\<close> and \<open>BitArray_getAt\<close> are the instance used for concrete inputs.
\<close>

record 'ba CachedSection =
  palette :: "compound list"
  blockStatesBitArray :: 'ba

record 'ba WorldSlice =
  rect :: "int \<times> int \<times> int \<times> int"
  chunkRect :: "int \<times> int \<times> int \<times> int"
  heightmapTypes :: "string list"
  heightmaps :: "(string \<times> ndarray) list"
  sections :: "'ba CachedSection option list list list"

text \<open>
  The body of the innermost heightmap loop of \<open>_load_slice\<close>: the sample is decoded,
  then stored at row \<open>-rectOffset[0] + x * 16 + cx\<close> and column
  \<open>-rectOffset[1] + z * 16 + cz\<close>; an \<open>IndexError\<close> of either step is swallowed by
  \<open>except IndexError: pass\<close>.
\<close>

definition store_sample :: "('ba \<Rightarrow> int \<Rightarrow> py_exception + int) \<Rightarrow> 'ba \<Rightarrow> int \<times> int \<Rightarrow> int \<Rightarrow> int
    \<Rightarrow> string \<Rightarrow> int \<Rightarrow> int \<Rightarrow> (string \<times> ndarray) list
    \<Rightarrow> (py_exception + unit) \<times> (string \<times> ndarray) list" where
  "store_sample getAt heightmapBitArray rectOffset x z hmName cz cx hms =
     (case getAt heightmapBitArray (cz * 16 + cx) of
        Inl e \<Rightarrow> if e = IndexError then (Inr (), hms) else (Inl e, hms)
      | Inr v \<Rightarrow>
          (case map_of hms hmName of
             None \<Rightarrow> (Inl KeyError, hms)
           | Some heightmap \<Rightarrow>
               (case np_setitem heightmap (- fst rectOffset + x * 16 + cx)
                                          (- snd rectOffset + z * 16 + cz) v of
                  Inl e \<Rightarrow> if e = IndexError then (Inr (), hms) else (Inl e, hms)
                | Inr heightmap' \<Rightarrow> (Inr (), dict_set hmName heightmap' hms))))"

text \<open>The body of the loop over \<open>heightmapTypes\<close> for one chunk.\<close>

definition load_chunk_heightmap :: "(nat \<Rightarrow> nat \<Rightarrow> 64 word list \<Rightarrow> py_exception + 'ba)
    \<Rightarrow> ('ba \<Rightarrow> int \<Rightarrow> py_exception + int) \<Rightarrow> int \<times> int \<Rightarrow> chunk_tag \<Rightarrow> int \<Rightarrow> int \<Rightarrow> string
    \<Rightarrow> (string \<times> ndarray) list \<Rightarrow> (py_exception + unit) \<times> (string \<times> ndarray) list" where
  "load_chunk_heightmap newBitArray getAt rectOffset chunk x z hmName hms =
     (case map_of (Heightmaps chunk) hmName of
        None \<Rightarrow> (Inl KeyError, hms)
      | Some hmRaw \<Rightarrow>
          (case newBitArray 9 (16 * 16) hmRaw of
             Inl e \<Rightarrow> (Inl e, hms)
           | Inr heightmapBitArray \<Rightarrow>
               (case map_of hms hmName of
                  None \<Rightarrow> (Inl KeyError, hms)
                | Some heightmap \<Rightarrow>
                    for_each (py_range 16) (\<lambda>cz.
                      for_each (py_range 16) (\<lambda>cx.
                        store_sample getAt heightmapBitArray rectOffset x z hmName cz cx)) hms)))"

text \<open>The heightmap loops over the chunks; \<open>chunkID = x + z * chunkRect[2]\<close>.\<close>

definition load_heightmaps :: "(nat \<Rightarrow> nat \<Rightarrow> 64 word list \<Rightarrow> py_exception + 'ba)
    \<Rightarrow> ('ba \<Rightarrow> int \<Rightarrow> py_exception + int) \<Rightarrow> chunk_tag list \<Rightarrow> int \<times> int \<times> int \<times> int
    \<Rightarrow> int \<times> int \<times> int \<times> int \<Rightarrow> string list
    \<Rightarrow> (string \<times> ndarray) list \<Rightarrow> (py_exception + unit) \<times> (string \<times> ndarray) list" where
  "load_heightmaps newBitArray getAt chunks rct crct hmTypes hms =
     (case (rct, crct) of ((rx, rz, rw, rh), (cx0, cz0, cxl, czl)) \<Rightarrow>
        (let rectOffset = (rx mod 16, rz mod 16)
         in for_each (py_range cxl) (\<lambda>x.
              for_each (py_range czl) (\<lambda>z hms1.
                (let chunkID = x + z * cxl
                 in case py_getitem chunks chunkID of
                      Inl e \<Rightarrow> (Inl e, hms1)
                    | Inr chunk \<Rightarrow>
                        for_each hmTypes
                          (load_chunk_heightmap newBitArray getAt rectOffset chunk x z) hms1))) hms))"

text \<open>The first loop: one zero array of \<open>(rect[2] + 1, rect[3] + 1)\<close> per heightmap name.\<close>

definition zero_heightmaps :: "int \<times> int \<times> int \<times> int \<Rightarrow> string list
    \<Rightarrow> (string \<times> ndarray) list \<Rightarrow> (py_exception + unit) \<times> (string \<times> ndarray) list" where
  "zero_heightmaps rct hmTypes hms =
     (case rct of (rx, rz, rw, rh) \<Rightarrow>
        for_each hmTypes (\<lambda>hmName hms1.
          case np_zeros (rw + 1) (rh + 1) of
            Inl e \<Rightarrow> (Inl e, hms1)
          | Inr a \<Rightarrow> (Inr (), dict_set hmName a hms1)) hms)"

text \<open>
  The body of the loop over a chunk's sections: a section without \<open>BlockStates\<close>, or with
  an empty one, is skipped by \<open>continue\<close>; otherwise a \<open>CachedSection\<close> is stored at
  \<open>self.sections[x][z][y]\<close>.
\<close>

definition store_section :: "(nat \<Rightarrow> nat \<Rightarrow> 64 word list \<Rightarrow> py_exception + 'ba) \<Rightarrow> int \<Rightarrow> int
    \<Rightarrow> section_tag \<Rightarrow> 'ba CachedSection option list list list
    \<Rightarrow> (py_exception + unit) \<times> 'ba CachedSection option list list list" where
  "store_section newBitArray x z section secs =
     (let y = Y section
      in case BlockStates section of
           None \<Rightarrow> (Inr (), secs)
         | Some rawBlockStates \<Rightarrow>
             if length rawBlockStates = 0 then (Inr (), secs)
             else
               (case Palette section of
                  None \<Rightarrow> (Inl KeyError, secs)
                | Some pal \<Rightarrow>
                    (let bitsPerEntry = max 4 (ceil_log2 (length pal))
                     in case newBitArray bitsPerEntry (16 * 16 * 16) rawBlockStates of
                          Inl e \<Rightarrow> (Inl e, secs)
                        | Inr bitarray \<Rightarrow>
                            (case set3 secs x z y
                                    (Some \<lparr>palette = pal, blockStatesBitArray = bitarray\<rparr>) of
                               Inl e \<Rightarrow> (Inl e, secs)
                             | Inr secs' \<Rightarrow> (Inr (), secs')))))"

definition load_sections :: "(nat \<Rightarrow> nat \<Rightarrow> 64 word list \<Rightarrow> py_exception + 'ba) \<Rightarrow> chunk_tag list
    \<Rightarrow> int \<times> int \<times> int \<times> int \<Rightarrow> 'ba CachedSection option list list list
    \<Rightarrow> (py_exception + unit) \<times> 'ba CachedSection option list list list" where
  "load_sections newBitArray chunks crct secs =
     (case crct of (cx0, cz0, cxl, czl) \<Rightarrow>
        for_each (py_range cxl) (\<lambda>x.
          for_each (py_range czl) (\<lambda>z secs1.
            (let chunkID = x + z * cxl
             in case py_getitem chunks chunkID of
                  Inl e \<Rightarrow> (Inl e, secs1)
                | Inr chunk \<Rightarrow>
                    for_each (Sections chunk) (store_section newBitArray x z) secs1))) secs)"

text \<open>
  \<open>__init__\<close> followed by \<open>_load_slice\<close>. The chunks are what the server returned
  for \<open>chunkRect\<close>, already parsed. The result is the object, or the exception that
  ended the construction.
\<close>

definition default_heightmapTypes :: "string list" where
  "default_heightmapTypes =
     [''MOTION_BLOCKING'', ''MOTION_BLOCKING_NO_LEAVES'', ''OCEAN_FLOOR'', ''WORLD_SURFACE'']"

definition WorldSlice_init :: "(nat \<Rightarrow> nat \<Rightarrow> 64 word list \<Rightarrow> py_exception + 'ba)
    \<Rightarrow> ('ba \<Rightarrow> int \<Rightarrow> py_exception + int) \<Rightarrow> chunk_tag list \<Rightarrow> int \<Rightarrow> int \<Rightarrow> int \<Rightarrow> int
    \<Rightarrow> string list option \<Rightarrow> py_exception + 'ba WorldSlice" where
  "WorldSlice_init newBitArray getAt chunks x1 z1 x2 z2 heightmapTypes_arg =
     (let hmTypes = (case heightmapTypes_arg of None \<Rightarrow> default_heightmapTypes | Some ts \<Rightarrow> ts);
          rct = (x1, z1, x2 - x1, z2 - z1);
          cxl = ceil_div16 (x2 - x1);
          czl = ceil_div16 (z2 - z1);
          crct = (x1 div 16, z1 div 16, cxl, czl)
      in case zero_heightmaps rct hmTypes [] of
           (Inl e, hms0) \<Rightarrow> Inl e
         | (Inr u, hms0) \<Rightarrow>
             (let secs0 = replicate (nat cxl) (replicate (nat czl) (replicate 16 None))
              in case load_heightmaps newBitArray getAt chunks rct crct hmTypes hms0 of
                   (Inl e, hms1) \<Rightarrow> Inl e
                 | (Inr u, hms1) \<Rightarrow>
                     (case load_sections newBitArray chunks crct secs0 of
                        (Inl e, secs1) \<Rightarrow> Inl e
                      | (Inr u, secs1) \<Rightarrow>
                          Inr \<lparr>rect = rct, chunkRect = crct, heightmapTypes = hmTypes,
                               heightmaps = hms1, sections = secs1\<rparr>)))"

text \<open>
  \<open>getBlockCompoundAt\<close>: the lookup of the cached section is inside
  \<open>try ... except IndexError\<close>, whose handler returns \<open>None\<close> (its \<open>print\<close> is not
  modelled); the decoding and the palette lookup are outside of it.
\<close>

definition getBlockCompoundAt :: "('ba \<Rightarrow> int \<Rightarrow> py_exception + int) \<Rightarrow> 'ba WorldSlice
    \<Rightarrow> int \<Rightarrow> int \<Rightarrow> int \<Rightarrow> py_exception + compound option" where
  "getBlockCompoundAt getAt self x y z =
     (case chunkRect self of (cx0, cz0, cxl, czl) \<Rightarrow>
        (let chunkX = x div 16 - cx0;
             chunkZ = z div 16 - cz0;
             chunkY = y div 16
         in case get3 (sections self) chunkX chunkZ chunkY of
              Inl e \<Rightarrow> if e = IndexError then Inr None else Inl e
            | Inr None \<Rightarrow> Inr None
            | Inr (Some cachedSection) \<Rightarrow>
                (let bitarray = blockStatesBitArray cachedSection;
                     pal = palette cachedSection;
                     blockIndex = (y mod 16) * 16 * 16 + (z mod 16) * 16 + x mod 16
                 in case getAt bitarray blockIndex of
                      Inl e \<Rightarrow> Inl e
                    | Inr p \<Rightarrow>
                        (case py_getitem pal p of
                           Inl e \<Rightarrow> Inl e
                         | Inr c \<Rightarrow> Inr (Some c)))))"

definition getBlockAt :: "('ba \<Rightarrow> int \<Rightarrow> py_exception + int) \<Rightarrow> 'ba WorldSlice
    \<Rightarrow> int \<Rightarrow> int \<Rightarrow> int \<Rightarrow> py_exception + string" where
  "getBlockAt getAt self x y z =
     (case getBlockCompoundAt getAt self x y z of
        Inl e \<Rightarrow> Inl e
      | Inr None \<Rightarrow> Inr ''minecraft:void_air''
      | Inr (Some blockCompound) \<Rightarrow>
          (case map_of blockCompound ''Name'' of
             None \<Rightarrow> Inl KeyError
           | Some name \<Rightarrow> Inr name))"

subsection \<open>Notions used to state the properties of the read path\<close>

text \<open>A section of the decoded chunk data that carries block states.\<close>

definition has_data :: "section_tag \<Rightarrow> bool" where
  "has_data sec = (case BlockStates sec of None \<Rightarrow> False | Some raw \<Rightarrow> length raw \<noteq> 0)"

text \<open>
  The shape of \<open>self.sections\<close>: \<open>nx\<close> lists of \<open>nz\<close> lists of 16 entries. And
  where its entries come from: every entry that is not \<open>None\<close> was stored for a
  section with block states of the chunk with that \<open>chunkID\<close>, at the index its
  \<open>Y\<close> resolves to.
\<close>

definition shape3 :: "nat \<Rightarrow> nat \<Rightarrow> 'a list list list \<Rightarrow> bool" where
  "shape3 nx nz a \<longleftrightarrow>
     length a = nx \<and> (\<forall>i < nx. length (a ! i) = nz \<and> (\<forall>j < nz. length (a ! i ! j) = 16))"

definition origin_ok :: "chunk_tag list \<Rightarrow> int \<Rightarrow> 'ba CachedSection option list list list \<Rightarrow> bool" where
  "origin_ok chunks cxl a \<longleftrightarrow>
     (\<forall>i j k. i < length a \<longrightarrow> j < length (a ! i) \<longrightarrow> k < length (a ! i ! j) \<longrightarrow>
        a ! i ! j ! k \<noteq> None \<longrightarrow>
        (\<exists>chunk sec. py_getitem chunks (int i + int j * cxl) = Inr chunk \<and>
            sec \<in> set (Sections chunk) \<and> has_data sec \<and> py_norm 16 (Y sec) = Some k))"

definition sections_inv :: "nat \<Rightarrow> nat \<Rightarrow> chunk_tag list \<Rightarrow> int
    \<Rightarrow> 'ba CachedSection option list list list \<Rightarrow> bool" where
  "sections_inv nx nz chunks cxl a \<longleftrightarrow> shape3 nx nz a \<and> origin_ok chunks cxl a"

text \<open>
  Concrete inputs: a chunk with one section of stone at \<open>Y = 0\<close> and one section
  without block states at \<open>Y = 1\<close>; a chunk whose only section has a one-entry palette
  and a first block state of 1; a chunk whose \<open>MOTION_BLOCKING\<close> heightmap has the
  sample 5 at index 0 and 0 elsewhere; and the objects built from the first two.
\<close>

definition stone :: compound where
  "stone = [(''Name'', ''minecraft:stone'')]"

definition stone_section :: section_tag where
  "stone_section = \<lparr>Y = 0, BlockStates = Some (replicate 256 0), Palette = Some [stone]\<rparr>"

definition empty_section :: section_tag where
  "empty_section = \<lparr>Y = 1, BlockStates = None, Palette = None\<rparr>"

definition corrupt_section :: section_tag where
  "corrupt_section = \<lparr>Y = 0, BlockStates = Some (1 # replicate 255 0), Palette = Some [stone]\<rparr>"

definition stone_chunk :: chunk_tag where
  "stone_chunk = \<lparr>Heightmaps = [], Sections = [stone_section, empty_section]\<rparr>"

definition corrupt_chunk :: chunk_tag where
  "corrupt_chunk = \<lparr>Heightmaps = [], Sections = [corrupt_section]\<rparr>"

definition partial_chunk :: chunk_tag where
  "partial_chunk = \<lparr>Heightmaps = [(''MOTION_BLOCKING'', 5 # replicate 36 0)], Sections = []\<rparr>"

definition stone_slice :: "BitArray WorldSlice" where
  "stone_slice = \<lparr>rect = (0, 0, 16, 16), chunkRect = (0, 0, 1, 1), heightmapTypes = [],
      heightmaps = [],
      sections = [[Some \<lparr>palette = [stone],
          blockStatesBitArray = \<lparr>bitsPerEntry = 4, arraySize = 4096, longArray = replicate 256 0\<rparr>\<rparr>
          # replicate 15 None]]\<rparr>"

definition corrupt_slice :: "BitArray WorldSlice" where
  "corrupt_slice = \<lparr>rect = (0, 0, 16, 16), chunkRect = (0, 0, 1, 1), heightmapTypes = [],
      heightmaps = [],
      sections = [[Some \<lparr>palette = [stone],
          blockStatesBitArray = \<lparr>bitsPerEntry = 4, arraySize = 4096, longArray = 1 # replicate 255 0\<rparr>\<rparr>
          # replicate 15 None]]\<rparr>"

section \<open>Properties of class Interface\<close>

subsection \<open>Auxiliary facts\<close>

declare sendBlocks.simps [simp del]

lemma sendBlocks_response:
  "tr seen (blocks_url x y z, batch_body (buffer self)) = Response t \<Longrightarrow>
   sendBlocks tr x y z r (self, seen) =
     (Inr (Some t), (self\<lparr>buffer := []\<rparr>, seen @ [(blocks_url x y z, batch_body (buffer self))]))"
  by (subst sendBlocks.simps) (simp add: requests_put_def)

lemma sendBlocks_retry:
  "tr seen (blocks_url x y z, batch_body (buffer self)) = Raises ConnectionError \<Longrightarrow> 0 < r \<Longrightarrow>
   sendBlocks tr x y z r (self, seen) =
     sendBlocks tr x y z (r - 1) (self, seen @ [(blocks_url x y z, batch_body (buffer self))])"
  by (subst sendBlocks.simps) (simp add: requests_put_def)

lemma sendBlocks_give_up:
  "tr seen (blocks_url x y z, batch_body (buffer self)) = Raises ConnectionError \<Longrightarrow> r \<le> 0 \<Longrightarrow>
   sendBlocks tr x y z r (self, seen) =
     (Inr None, (self, seen @ [(blocks_url x y z, batch_body (buffer self))]))"
  by (subst sendBlocks.simps) (simp add: requests_put_def)

lemma sendBlocks_other:
  "tr seen (blocks_url x y z, batch_body (buffer self)) = Raises e \<Longrightarrow> e \<noteq> ConnectionError \<Longrightarrow>
   sendBlocks tr x y z r (self, seen) =
     (Inl e, (self, seen @ [(blocks_url x y z, batch_body (buffer self))]))"
  by (subst sendBlocks.simps) (simp add: requests_put_def)

text \<open>
  What every run of \<open>sendBlocks\<close> looks like: it makes between one and \<open>retries + 1\<close>
  attempts, all with the same request; the buffer is emptied only when the last attempt
  got a response; and an exception leaves the method only when the server raised one
  that is not a \<open>ConnectionError\<close>.
\<close>

lemma sendBlocks_shape:
  "\<exists>n res self'.
     sendBlocks tr x y z r (self, seen) =
       (res, (self', seen @ replicate n (flush_request x y z self))) \<and>
     1 \<le> n \<and> n \<le> nat r + 1 \<and>
     (self' = self \<or>
      (self' = self\<lparr>buffer := []\<rparr> \<and>
       (\<exists>t. res = Inr (Some t) \<and> tr (seen @ replicate (n - 1) (flush_request x y z self))
                 (flush_request x y z self) = Response t))) \<and>
     (\<forall>e. res = Inl e \<longrightarrow> e \<noteq> ConnectionError \<and>
          tr (seen @ replicate (n - 1) (flush_request x y z self))
             (flush_request x y z self) = Raises e)"
proof (induction "nat r" arbitrary: r seen)
  case 0
  then have r0: "r \<le> 0" by simp
  show ?case
  proof (cases "tr seen (flush_request x y z self)")
    case (Response t)
    then show ?thesis
      by (intro exI [of _ 1]) (simp add: sendBlocks_response flush_request_def)
  next
    case (Raises e)
    then show ?thesis using r0
      by (cases "e = ConnectionError")
         (intro exI [of _ 1], simp add: sendBlocks_give_up sendBlocks_other flush_request_def)+
  qed
next
  case (Suc m)
  then have pos: "0 < r" and m: "m = nat (r - 1)" by simp_all
  show ?case
  proof (cases "tr seen (flush_request x y z self)")
    case (Response t)
    then show ?thesis
      by (intro exI [of _ 1]) (simp add: sendBlocks_response flush_request_def)
  next
    case (Raises e)
    show ?thesis
    proof (cases "e = ConnectionError")
      case False
      with Raises show ?thesis
        by (intro exI [of _ 1]) (simp add: sendBlocks_other flush_request_def)
    next
      case True
      with Raises pos have step: "sendBlocks tr x y z r (self, seen) =
          sendBlocks tr x y z (r - 1) (self, seen @ [flush_request x y z self])"
        by (simp add: sendBlocks_retry flush_request_def)
      from Suc.hyps(1) [OF m, of "seen @ [flush_request x y z self]"]
      obtain n res self' where
        eq: "sendBlocks tr x y z (r - 1) (self, seen @ [flush_request x y z self]) =
          (res, (self', (seen @ [flush_request x y z self]) @ replicate n (flush_request x y z self)))"
        and n1: "1 \<le> n" and n2: "n \<le> nat (r - 1) + 1"
        and buf: "self' = self \<or>
          (self' = self\<lparr>buffer := []\<rparr> \<and>
           (\<exists>t. res = Inr (Some t) \<and>
              tr ((seen @ [flush_request x y z self]) @ replicate (n - 1) (flush_request x y z self))
                 (flush_request x y z self) = Response t))"
        and err: "\<forall>e. res = Inl e \<longrightarrow> e \<noteq> ConnectionError \<and>
          tr ((seen @ [flush_request x y z self]) @ replicate (n - 1) (flush_request x y z self))
             (flush_request x y z self) = Raises e"
        by blast
      have shift: "\<And>j. (seen @ [flush_request x y z self]) @ replicate j (flush_request x y z self)
          = seen @ replicate (Suc j) (flush_request x y z self)"
        by (simp add: replicate_append_same)
      have sn: "Suc n - 1 = Suc (n - 1)" using n1 by simp
      show ?thesis
        apply (intro exI [of _ "Suc n"] exI [of _ res] exI [of _ self'])
        using eq n1 n2 buf err pos unfolding step shift sn
        by auto
    qed
  qed
qed

lemma for_each_append:
  "for_each (as @ bs) body s =
     (case for_each as body s of (Inl e, s') \<Rightarrow> (Inl e, s') | (Inr u, s') \<Rightarrow> for_each bs body s')"
  by (induction as arbitrary: s) (auto split: prod.splits sum.splits)

lemma to_global_buffer [simp]: "to_global (self\<lparr>buffer := b\<rparr>) = to_global self"
  by (rule ext) (simp add: to_global_def)

lemma setBlock_buffered_below:
  "buffering self \<Longrightarrow> int (length (buffer self)) + 1 < bufferlimit self \<Longrightarrow>
   setBlock tr x y z s (self, seen) =
     (Inr (), (self\<lparr>buffer := buffer self @ [to_global self (x, y, z, s)]\<rparr>, seen))"
  by (simp add: setBlock_def placeBlockBatched_def local2global_def to_global_def)

lemma setBlock_buffered_reach:
  "buffering self \<Longrightarrow> bufferlimit self \<le> int (length (buffer self)) + 1 \<Longrightarrow>
   tr seen (blocks_url 0 0 0, batch_body (buffer self @ [to_global self (x, y, z, s)])) = Response t \<Longrightarrow>
   setBlock tr x y z s (self, seen) =
     (Inr (), (self\<lparr>buffer := []\<rparr>,
        seen @ [(blocks_url 0 0 0, batch_body (buffer self @ [to_global self (x, y, z, s)]))]))"
  by (simp add: setBlock_def placeBlockBatched_def local2global_def to_global_def
        sendBlocks_response)

lemma setBlocks_below:
  "buffering self \<Longrightarrow> int (length (buffer self) + length calls) < bufferlimit self \<Longrightarrow>
   setBlocks tr calls (self, seen) =
     (Inr (), (self\<lparr>buffer := buffer self @ map (to_global self) calls\<rparr>, seen))"
proof (induction calls arbitrary: self)
  case Nil
  then show ?case by (simp add: setBlocks_def)
next
  case (Cons c calls)
  obtain x y z s where c: "c = (x, y, z, s)" by (cases c) auto
  let ?self = "self\<lparr>buffer := buffer self @ [to_global self c]\<rparr>"
  have one: "setBlock tr x y z s (self, seen) = (Inr (), (?self, seen))"
    using Cons.prems c by (simp add: setBlock_buffered_below)
  have "setBlocks tr calls (?self, seen) =
      (Inr (), (?self\<lparr>buffer := buffer ?self @ map (to_global ?self) calls\<rparr>, seen))"
    using Cons.prems by (intro Cons.IH) simp_all
  then show ?case using one c by (simp add: setBlocks_def)
qed

lemma setBlock_buffered_flush:
  "buffering self \<Longrightarrow> bufferlimit self \<le> int (length (buffer self)) + 1 \<Longrightarrow>
   snd (setBlock tr x y z s (self, seen)) =
     snd (sendBlocks tr 0 0 0 5 (self\<lparr>buffer := buffer self @ [to_global self (x, y, z, s)]\<rparr>, seen))"
  by (simp add: setBlock_def placeBlockBatched_def local2global_def to_global_def
        split: prod.splits sum.splits)

lemma setBlocks_snoc_below:
  assumes "buffering self" "int (length (buffer self) + length calls) < bufferlimit self"
  shows "setBlocks tr (calls @ [c]) (self, seen) =
     (case c of (x, y, z, s) \<Rightarrow>
        setBlock tr x y z s (self\<lparr>buffer := buffer self @ map (to_global self) calls\<rparr>, seen))"
  using setBlocks_below [OF assms, of tr seen]
  by (cases c) (simp add: setBlocks_def for_each_append split: prod.splits sum.splits)

lemma str_int_small [simp]:
  "str_int 0 = ''0''" "str_int 1 = ''1''" "str_int 2 = ''2''" "str_int 3 = ''3''"
  "str_int 4 = ''4''" "str_int 6 = ''6''" "str_int 10 = ''10''" "str_int 11 = ''11''"
  "str_int 12 = ''12''" "str_int (- 5) = ''-5''"
  by (simp_all add: str_int_def digit_chr_def)

subsection \<open>The constructor\<close>

text \<open>
  C10. The constructor ignores its \<open>buffering\<close> and \<open>bufferlimit\<close> arguments: whatever
  is passed, the new object is in unbuffered mode, its buffer limit is 4096, its pending
  sequence is empty, and only the offset is taken from the arguments.
\<close>

theorem Interface_init_ignores_buffer_arguments:
  "buffering (Interface_init off b lim) = False \<and>
   bufferlimit (Interface_init off b lim) = 4096 \<and>
   buffer (Interface_init off b lim) = [] \<and>
   offset (Interface_init off b lim) = off \<and>
   Interface_init off b lim = Interface_init off False 4096 \<and>
   Interface_init off True 50 = Interface_init off False 4096"
  by (simp add: Interface_init_def)

subsection \<open>Buffered writes and the automatic flush\<close>

text \<open>
  C1. In buffered mode, a sequence of \<open>setBlock\<close> calls that keeps the number of pending
  entries below \<open>bufferlimit\<close> sends nothing: the requests seen by the server are
  unchanged and the entries are appended in call order, each shifted by the offset. One
  more call, which makes the number of pending entries reach the limit, runs one flush:
  every request the server then sees (at least one, at most six) carries the batch of
  all pending entries in insertion order. When the server answers the first of them, it
  is the only request, and the pending sequence is empty afterwards.
\<close>

theorem buffered_setBlock_flushes_at_limit:
  assumes "buffering self"
  shows "(int (length (buffer self) + length calls) < bufferlimit self \<longrightarrow>
            setBlocks tr calls (self, seen) =
              (Inr (), (self\<lparr>buffer := buffer self @ map (to_global self) calls\<rparr>, seen))) \<and>
         (int (length (buffer self) + length calls) + 1 = bufferlimit self \<longrightarrow>
            (\<exists>n. 1 \<le> n \<and> n \<le> 6 \<and>
               snd (snd (setBlocks tr (calls @ [c]) (self, seen))) =
                 seen @ replicate n (blocks_url 0 0 0,
                          batch_body (buffer self @ map (to_global self) (calls @ [c]))))) \<and>
         (int (length (buffer self) + length calls) + 1 = bufferlimit self \<and>
          tr seen (blocks_url 0 0 0, batch_body (buffer self @ map (to_global self) (calls @ [c])))
            = Response t \<longrightarrow>
            setBlocks tr (calls @ [c]) (self, seen) =
              (Inr (), (self\<lparr>buffer := []\<rparr>,
                 seen @ [(blocks_url 0 0 0,
                          batch_body (buffer self @ map (to_global self) (calls @ [c])))])))"
proof (intro conjI impI)
  assume "int (length (buffer self) + length calls) < bufferlimit self"
  with assms show "setBlocks tr calls (self, seen) =
      (Inr (), (self\<lparr>buffer := buffer self @ map (to_global self) calls\<rparr>, seen))"
    by (rule setBlocks_below)
next
  assume h: "int (length (buffer self) + length calls) + 1 = bufferlimit self"
  obtain x y z s where c: "c = (x, y, z, s)" by (cases c) auto
  let ?mid = "self\<lparr>buffer := buffer self @ map (to_global self) calls\<rparr>"
  let ?full = "?mid\<lparr>buffer := buffer ?mid @ [to_global ?mid (x, y, z, s)]\<rparr>"
  from h have below: "int (length (buffer self) + length calls) < bufferlimit self" by simp
  have run: "setBlocks tr (calls @ [c]) (self, seen) = setBlock tr x y z s (?mid, seen)"
    using setBlocks_snoc_below [OF assms below, of tr c seen] c by simp
  have "snd (setBlock tr x y z s (?mid, seen)) = snd (sendBlocks tr 0 0 0 5 (?full, seen))"
    using assms h by (intro setBlock_buffered_flush) simp_all
  moreover from sendBlocks_shape [of tr 0 0 0 5 ?full seen]
  obtain n where "1 \<le> n" "n \<le> 6"
    "snd (snd (sendBlocks tr 0 0 0 5 (?full, seen))) = seen @ replicate n (flush_request 0 0 0 ?full)"
    by auto
  moreover have "flush_request 0 0 0 ?full =
      (blocks_url 0 0 0, batch_body (buffer self @ map (to_global self) (calls @ [c])))"
    by (simp add: flush_request_def c)
  ultimately show "\<exists>n. 1 \<le> n \<and> n \<le> 6 \<and>
      snd (snd (setBlocks tr (calls @ [c]) (self, seen))) =
        seen @ replicate n (blocks_url 0 0 0,
                 batch_body (buffer self @ map (to_global self) (calls @ [c])))"
    unfolding run by auto
next
  assume h: "int (length (buffer self) + length calls) + 1 = bufferlimit self \<and>
          tr seen (blocks_url 0 0 0, batch_body (buffer self @ map (to_global self) (calls @ [c])))
            = Response t"
  obtain x y z s where c: "c = (x, y, z, s)" by (cases c) auto
  let ?mid = "self\<lparr>buffer := buffer self @ map (to_global self) calls\<rparr>"
  from h have below: "int (length (buffer self) + length calls) < bufferlimit self" by simp
  have run: "setBlocks tr (calls @ [c]) (self, seen) = setBlock tr x y z s (?mid, seen)"
    using setBlocks_snoc_below [OF assms below, of tr c seen] c by simp
  have last: "setBlock tr x y z s (?mid, seen) =
      (Inr (), (?mid\<lparr>buffer := []\<rparr>,
         seen @ [(blocks_url 0 0 0, batch_body (buffer ?mid @ [to_global ?mid (x, y, z, s)]))]))"
    using assms h c by (intro setBlock_buffered_reach) simp_all
  show "setBlocks tr (calls @ [c]) (self, seen) =
      (Inr (), (self\<lparr>buffer := []\<rparr>,
         seen @ [(blocks_url 0 0 0,
                  batch_body (buffer self @ map (to_global self) (calls @ [c])))]))"
    unfolding run using last c by simp
qed

theorem buffered_setBlock_flushes_at_limit_witness:
  "buffering buffered_three \<and>
   setBlocks always_ok [(0, 0, 0, ''a''), (1, 0, 0, ''b'')] (buffered_three, []) =
     (Inr (), (buffered_three\<lparr>buffer := [(10, 0, - 5, ''a''), (11, 0, - 5, ''b'')]\<rparr>, [])) \<and>
   setBlocks always_ok [(0, 0, 0, ''a''), (1, 0, 0, ''b''), (2, 0, 0, ''c'')] (buffered_three, []) =
     (Inr (), (buffered_three\<lparr>buffer := []\<rparr>,
        [(''http://localhost:9000/blocks?x=0&y=0&z=0'',
          ''10 0 -5 a'' @ [CHR 0x0A] @ ''11 0 -5 b'' @ [CHR 0x0A] @ ''12 0 -5 c'')]))"
proof -
  have b: "buffering buffered_three" by (simp add: buffered_three_def)
  show ?thesis
    using buffered_setBlock_flushes_at_limit
      [OF b, of "[(0, 0, 0, ''a''), (1, 0, 0, ''b'')]" always_ok "[]" "(2, 0, 0, ''c'')" "''1''"]
    by (simp add: buffered_three_def always_ok_def to_global_def blocks_url_def batch_body_def
          format_entry_def)
qed


subsection \<open>Retries of a flush\<close>

text \<open>
  C2. A flush with \<open>retries = 5\<close> whose first two attempts end in a
  \<open>ConnectionError\<close> and whose third attempt gets a response succeeds with that
  response's text; the server sees exactly three more requests, all equal to the first
  (same URL, same body built from the unchanged pending entries), and the pending
  sequence is empty afterwards.
\<close>

theorem sendBlocks_succeeds_on_third_attempt:
  assumes "tr seen (blocks_url x y z, batch_body (buffer self)) = Raises ConnectionError"
    and "tr (seen @ [(blocks_url x y z, batch_body (buffer self))])
            (blocks_url x y z, batch_body (buffer self)) = Raises ConnectionError"
    and "tr (seen @ [(blocks_url x y z, batch_body (buffer self)),
                     (blocks_url x y z, batch_body (buffer self))])
            (blocks_url x y z, batch_body (buffer self)) = Response t"
  shows "sendBlocks tr x y z 5 (self, seen) =
     (Inr (Some t),
      (self\<lparr>buffer := []\<rparr>,
       seen @ [(blocks_url x y z, batch_body (buffer self)),
               (blocks_url x y z, batch_body (buffer self)),
               (blocks_url x y z, batch_body (buffer self))]))"
  using assms
  by (simp add: sendBlocks_retry sendBlocks_response)

theorem sendBlocks_succeeds_on_third_attempt_witness:
  "sendBlocks down_twice 0 0 0 5 (one_pending, []) =
     (Inr (Some ''1''),
      (one_pending\<lparr>buffer := []\<rparr>,
       [(''http://localhost:9000/blocks?x=0&y=0&z=0'', ''1 2 3 stone''),
        (''http://localhost:9000/blocks?x=0&y=0&z=0'', ''1 2 3 stone''),
        (''http://localhost:9000/blocks?x=0&y=0&z=0'', ''1 2 3 stone'')]))"
  using sendBlocks_succeeds_on_third_attempt [of down_twice "[]" 0 0 0 one_pending "''1''"]
  by (simp add: down_twice_def one_pending_def blocks_url_def batch_body_def format_entry_def)

text \<open>
  C3, as the code has it. When every attempt of a flush ends in a \<open>ConnectionError\<close>,
  the flush makes \<open>retries + 1\<close> attempts (one for a budget that is not positive), all
  with the same request, and then returns \<open>None\<close> to its caller: no exception is
  raised. The pending sequence is left as it was.
\<close>

theorem sendBlocks_exhausted_returns_None:
  "(\<forall>k \<le> nat r. tr (seen @ replicate k (flush_request x y z self)) (flush_request x y z self)
        = Raises ConnectionError) \<Longrightarrow>
   sendBlocks tr x y z r (self, seen) =
     (Inr None, (self, seen @ replicate (nat r + 1) (flush_request x y z self)))"
proof (induction "nat r" arbitrary: r seen)
  case 0
  then have "r \<le> 0" by simp
  moreover from 0 have "tr seen (flush_request x y z self) = Raises ConnectionError" by simp
  ultimately show ?case using 0
    by (simp add: sendBlocks_give_up flush_request_def)
next
  case (Suc n)
  then have pos: "0 < r" and n: "n = nat (r - 1)" by simp_all
  from Suc.prems have first: "tr seen (flush_request x y z self) = Raises ConnectionError"
    by (metis append_Nil2 le0 replicate_0)
  have rest: "\<forall>k \<le> nat (r - 1).
      tr ((seen @ [flush_request x y z self]) @ replicate k (flush_request x y z self))
         (flush_request x y z self) = Raises ConnectionError"
  proof (intro allI impI)
    fix k assume "k \<le> nat (r - 1)"
    then have "Suc k \<le> nat r" using pos by simp
    with Suc.prems have "tr (seen @ replicate (Suc k) (flush_request x y z self))
         (flush_request x y z self) = Raises ConnectionError" by blast
    then show "tr ((seen @ [flush_request x y z self]) @ replicate k (flush_request x y z self))
         (flush_request x y z self) = Raises ConnectionError" by simp
  qed
  have "sendBlocks tr x y z r (self, seen) =
        sendBlocks tr x y z (r - 1) (self, seen @ [flush_request x y z self])"
    using first pos by (simp add: sendBlocks_retry flush_request_def)
  also have "\<dots> = (Inr None, (self, (seen @ [flush_request x y z self]) @
        replicate (nat (r - 1) + 1) (flush_request x y z self)))"
    using Suc.hyps(1) [OF n rest] .
  also have "(seen @ [flush_request x y z self]) @
        replicate (nat (r - 1) + 1) (flush_request x y z self)
      = seen @ replicate (nat r + 1) (flush_request x y z self)"
    using pos Suc.hyps(2) n by (simp add: replicate_append_same)
  finally show ?case .
qed

theorem sendBlocks_exhausted_returns_None_witness:
  "sendBlocks always_down 0 0 0 5 (one_pending, []) =
     (Inr None,
      (one_pending,
       replicate 6 (''http://localhost:9000/blocks?x=0&y=0&z=0'', ''1 2 3 stone'')))"
proof -
  have "\<forall>k \<le> nat 5. always_down ([] @ replicate k (flush_request 0 0 0 one_pending))
      (flush_request 0 0 0 one_pending) = Raises ConnectionError"
    by (simp add: always_down_def)
  from sendBlocks_exhausted_returns_None [of 5 always_down "[]" 0 0 0 one_pending, OF this]
  show ?thesis
    by (simp add: flush_request_def one_pending_def blocks_url_def batch_body_def
          format_entry_def)
qed

text \<open>
  The claim as stated fails: with a server that is always down, the flush of one pending
  entry returns \<open>None\<close> normally and raises nothing; the entry is still pending.
\<close>

theorem sendBlocks_exhausted_raises_nothing:
  "fst (sendBlocks always_down 0 0 0 5 (one_pending, [])) = Inr None \<and>
   (\<forall>e. fst (sendBlocks always_down 0 0 0 5 (one_pending, [])) \<noteq> Inl e) \<and>
   buffer (fst (snd (sendBlocks always_down 0 0 0 5 (one_pending, [])))) = [(1, 2, 3, ''stone'')]"
  by (simp add: sendBlocks_retry sendBlocks_give_up always_down_def one_pending_def)

subsection \<open>Leaving buffered mode\<close>

text \<open>
  C8. Assigning \<open>False\<close> to \<open>Buffering\<close>, from any state, runs a flush before the
  setter returns: the server sees between one and six more requests, each of them the
  batch of all pending entries (the empty body when nothing is pending). The pending
  entries are never dropped: afterwards the buffer is either unchanged or it is empty
  and the last request got a response. The setter raises only what the server raised
  when that was not a \<open>ConnectionError\<close>. \<open>toggleBuffer\<close> in buffered mode does the
  same.
\<close>

theorem Buffering_off_flushes:
  "\<exists>n res self'.
     Buffering_set tr False (self, seen) =
       (res, (self', seen @ replicate n (flush_request 0 0 0 self))) \<and>
     1 \<le> n \<and> n \<le> 6 \<and>
     buffering self' = False \<and>
     (buffer self' = buffer self \<or>
      (buffer self' = [] \<and>
       (\<exists>t. tr (seen @ replicate (n - 1) (flush_request 0 0 0 self)) (flush_request 0 0 0 self)
              = Response t))) \<and>
     (\<forall>e. res = Inl e \<longrightarrow> e \<noteq> ConnectionError \<and>
          tr (seen @ replicate (n - 1) (flush_request 0 0 0 self)) (flush_request 0 0 0 self)
            = Raises e) \<and>
     (buffer self = [] \<longrightarrow> flush_request 0 0 0 self = (blocks_url 0 0 0, [])) \<and>
     (buffering self \<longrightarrow>
        snd (toggleBuffer tr (self, seen)) = (self', seen @ replicate n (flush_request 0 0 0 self)))"
proof -
  let ?off = "self\<lparr>buffering := False\<rparr>"
  have fr: "flush_request 0 0 0 ?off = flush_request 0 0 0 self"
    by (simp add: flush_request_def)
  have empty: "buffer self = [] \<longrightarrow> flush_request 0 0 0 self = (blocks_url 0 0 0, [])"
    by (simp add: flush_request_def batch_body_def)
  from sendBlocks_shape [of tr 0 0 0 5 ?off seen]
  obtain n res self' where
    eq: "sendBlocks tr 0 0 0 5 (?off, seen) =
          (res, (self', seen @ replicate n (flush_request 0 0 0 self)))"
    and n: "1 \<le> n" "n \<le> 6"
    and buf: "self' = ?off \<or>
      (self' = ?off\<lparr>buffer := []\<rparr> \<and>
       (\<exists>t. res = Inr (Some t) \<and>
          tr (seen @ replicate (n - 1) (flush_request 0 0 0 self)) (flush_request 0 0 0 self)
            = Response t))"
    and err: "\<forall>e. res = Inl e \<longrightarrow> e \<noteq> ConnectionError \<and>
          tr (seen @ replicate (n - 1) (flush_request 0 0 0 self)) (flush_request 0 0 0 self)
            = Raises e"
    unfolding fr by auto
  show ?thesis
  proof (cases res)
    case (Inl e)
    show ?thesis
      apply (intro exI [of _ n] exI [of _ "Inl e"] exI [of _ self'])
      using eq n buf err Inl empty
      by (auto simp: Buffering_set_def toggleBuffer_def)
  next
    case (Inr r)
    show ?thesis
      apply (intro exI [of _ n] exI [of _ "Inr ()"] exI [of _ self'])
      using eq n buf err Inr empty
      by (auto simp: Buffering_set_def toggleBuffer_def)
  qed
qed

theorem Buffering_off_flushes_witness:
  "Buffering_set always_ok False (one_pending, []) =
     (Inr (), (one_pending\<lparr>buffering := False, buffer := []\<rparr>,
        [(''http://localhost:9000/blocks?x=0&y=0&z=0'', ''1 2 3 stone'')])) \<and>
   toggleBuffer always_ok (one_pending, []) =
     (Inr False, (one_pending\<lparr>buffering := False, buffer := []\<rparr>,
        [(''http://localhost:9000/blocks?x=0&y=0&z=0'', ''1 2 3 stone'')])) \<and>
   Buffering_set always_ok False (buffered_three, []) =
     (Inr (), (buffered_three\<lparr>buffering := False\<rparr>,
        [(''http://localhost:9000/blocks?x=0&y=0&z=0'', [])]))"
  using Buffering_off_flushes [of always_ok one_pending "[]"]
  by (simp add: Buffering_set_def toggleBuffer_def sendBlocks_response always_ok_def
        one_pending_def buffered_three_def blocks_url_def batch_body_def format_entry_def)

subsection \<open>Filling a cuboid\<close>

text \<open>
  In unbuffered mode, with a server that raises nothing but \<open>ConnectionError\<close>,
  \<open>fill\<close> makes one request per point of the cuboid, in loop order, and the request
  for the local point \<open>(x, y, z)\<close> goes to that point shifted by twice the offset.
\<close>

lemma map_add_upto: "map (\<lambda>x. x + d) [a..b] = [a + d..b + d]"
proof (induction a b rule: upto.induct)
  case (1 i j)
  show ?case
  proof (cases "i \<le> j")
    case True
    then have "[i..j] = i # [i + 1..j]" by (rule upto_rec1)
    moreover from True have "[i + d..j + d] = (i + d) # [i + d + 1..j + d]"
      by (intro upto_rec1) simp
    moreover have "map (\<lambda>x. x + d) [i + 1..j] = [i + 1 + d..j + d]"
      using 1 True by simp
    ultimately show ?thesis by (simp add: add.commute add.left_commute)
  next
    case False
    then show ?thesis by simp
  qed
qed

lemma setBlock_direct:
  assumes "no_other_fault tr" "\<not> buffering self"
  shows "setBlock tr x y z s (self, seen) =
     (Inr (), (self, seen @ [(blocks_url (x + fst (offset self)) (y + fst (snd (offset self)))
                                (z + snd (snd (offset self))), s)]))"
proof -
  let ?req = "(blocks_url (x + fst (offset self)) (y + fst (snd (offset self)))
                                (z + snd (snd (offset self))), s)"
  from assms(1) have "(\<exists>t. tr seen ?req = Response t) \<or> tr seen ?req = Raises ConnectionError"
    unfolding no_other_fault_def by blast
  then show ?thesis using assms(2)
    by (auto simp: setBlock_def placeBlock_def local2global_def requests_put_def)
qed

lemma for_each_writes:
  assumes "\<And>a seen. body a (self, seen) = (Inr (), (self, seen @ f a))"
  shows "for_each as body (self, seen) = (Inr (), (self, seen @ concat (map f as)))"
proof (induction as arbitrary: seen)
  case Nil
  then show ?case by simp
next
  case (Cons a as)
  show ?case using assms [of a seen] Cons.IH [of "seen @ f a"] by simp
qed

lemma upto_shift_min_max:
  "[min (a + d) (b + d)..max (a + d) (b + d)] = map (\<lambda>x. x + d) [min a b..max a b]"
  by (simp add: map_add_upto min_add_distrib_left max_add_distrib_left)

lemma fill_inner:
  assumes "no_other_fault tr" "\<not> buffering self" "offset self = (ox, oy, oz)"
  shows "for_each zs (\<lambda>z. setBlock tr gx gy z s) (self, seen) =
      (Inr (), (self, seen @ concat (map (\<lambda>z. [(blocks_url (gx + ox) (gy + oy) (z + oz), s)]) zs)))"
  by (rule for_each_writes) (simp add: setBlock_direct [OF assms(1,2)] assms(3))

lemma fill_middle:
  assumes "no_other_fault tr" "\<not> buffering self" "offset self = (ox, oy, oz)"
  shows "for_each ys (\<lambda>y. for_each zs (\<lambda>z. setBlock tr gx y z s)) (self, seen) =
      (Inr (), (self, seen @ concat (map (\<lambda>y.
          concat (map (\<lambda>z. [(blocks_url (gx + ox) (y + oy) (z + oz), s)]) zs)) ys)))"
  by (rule for_each_writes) (simp add: fill_inner [OF assms])

lemma fill_outer:
  assumes "no_other_fault tr" "\<not> buffering self" "offset self = (ox, oy, oz)"
  shows "for_each xs (\<lambda>x. for_each ys (\<lambda>y. for_each zs (\<lambda>z. setBlock tr x y z s))) (self, seen) =
      (Inr (), (self, seen @ concat (map (\<lambda>x. concat (map (\<lambda>y.
          concat (map (\<lambda>z. [(blocks_url (x + ox) (y + oy) (z + oz), s)]) zs)) ys)) xs)))"
  by (rule for_each_writes) (simp add: fill_middle [OF assms])

lemma fill_unfold:
  assumes "offset self = (ox, oy, oz)"
  shows "fill tr x1 y1 z1 x2 y2 z2 s (self, seen) =
     for_each [min (x1 + ox) (x2 + ox)..max (x1 + ox) (x2 + ox)] (\<lambda>x.
       for_each [min (y1 + oy) (y2 + oy)..max (y1 + oy) (y2 + oy)] (\<lambda>y.
         for_each [min (z1 + oz) (z2 + oz)..max (z1 + oz) (z2 + oz)] (\<lambda>z.
           setBlock tr x y z s))) (self, seen)"
  unfolding fill_def local2global_def
  by (simp only: assms fst_conv snd_conv option.case append.simps unpack3.simps sum.case
        prod.case Let_def)

lemma cuboid_shifted:
  "concat (map (\<lambda>x. concat (map (\<lambda>y.
          concat (map (\<lambda>z. [(blocks_url (x + ox) (y + oy) (z + oz), s)])
            (map (\<lambda>z. z + oz) zs)))
            (map (\<lambda>y. y + oy) ys)))
            (map (\<lambda>x. x + ox) xs))
     = map (\<lambda>(x, y, z). (blocks_url (x + 2 * ox) (y + 2 * oy) (z + 2 * oz), s))
         (concat (map (\<lambda>x. concat (map (\<lambda>y. map (\<lambda>z. (x, y, z)) zs) ys)) xs))"
proof -
  have two: "\<And>a b :: int. a + b + b = a + 2 * b" by simp
  show ?thesis
    by (simp add: map_concat comp_def two)
qed

lemma fill_direct:
  assumes "no_other_fault tr" "\<not> buffering self"
  shows "fill tr x1 y1 z1 x2 y2 z2 s (self, seen) =
     (Inr (), (self, seen @ map (\<lambda>(x, y, z).
         (blocks_url (x + 2 * fst (offset self)) (y + 2 * fst (snd (offset self)))
                     (z + 2 * snd (snd (offset self))), s))
       (cuboid x1 y1 z1 x2 y2 z2)))"
proof -
  obtain ox oy oz where off: "offset self = (ox, oy, oz)" by (cases "offset self") auto
  show ?thesis
    unfolding fill_unfold [OF off] fill_outer [OF assms off] upto_shift_min_max
      cuboid_shifted cuboid_def off fst_conv snd_conv
    by (rule refl)
qed

lemma length_cuboid:
  "length (cuboid x1 y1 z1 x2 y2 z2) =
     nat (\<bar>x1 - x2\<bar> + 1) * nat (\<bar>y1 - y2\<bar> + 1) * nat (\<bar>z1 - z2\<bar> + 1)"
proof -
  have a: "\<And>a b :: int. nat (max a b - min a b + 1) = nat (\<bar>a - b\<bar> + 1)"
    by (simp add: max_def min_def)
  show ?thesis
    by (simp add: cuboid_def length_concat comp_def sum_list_triv a)
qed


text \<open>
  C6. \<open>fill\<close> shifts both corners by the offset and then calls \<open>setBlock\<close>, which
  shifts every coordinate by the offset again. With offset \<open>(1, 2, 3)\<close>, filling
  the one-block cuboid at local \<open>(0, 0, 0)\<close> writes to global \<open>(2, 4, 6)\<close>, whereas
  \<open>setBlock\<close> at local \<open>(0, 0, 0)\<close> writes to global \<open>(1, 2, 3)\<close>.
\<close>

theorem fill_applies_offset_twice:
  "snd (snd (fill always_ok 0 0 0 0 0 0 ''stone'' (shifted_direct, []))) =
      [(''http://localhost:9000/blocks?x=2&y=4&z=6'', ''stone'')] \<and>
   snd (snd (setBlock always_ok 0 0 0 ''stone'' (shifted_direct, []))) =
      [(''http://localhost:9000/blocks?x=1&y=2&z=3'', ''stone'')]"
  by (simp add: fill_def setBlock_def placeBlock_def local2global_def shifted_direct_def
        always_ok_def requests_put_def blocks_url_def)

section \<open>Properties of class WorldSlice\<close>

subsection \<open>Auxiliary facts\<close>

declare ceil_log2.simps [simp del]

lemma for_each_invariant:
  assumes "P s"
    and "\<And>a s r s'. a \<in> set as \<Longrightarrow> P s \<Longrightarrow> body a s = (r, s') \<Longrightarrow> P s'"
  shows "P (snd (for_each as body s))"
  using assms
proof (induction as arbitrary: s)
  case Nil
  then show ?case by simp
next
  case (Cons a as)
  obtain r s' where b: "body a s = (r, s')" by (cases "body a s")
  have P': "P s'" using Cons.prems(2) [of a s r s'] Cons.prems(1) b by simp
  show ?case
  proof (cases r)
    case (Inl e)
    with b P' show ?thesis by simp
  next
    case (Inr u)
    have "P (snd (for_each as body s'))"
      using P' Cons.prems(2) by (intro Cons.IH) auto
    with b Inr show ?thesis by simp
  qed
qed

lemma py_norm_in_range: "0 \<le> i \<Longrightarrow> i < int n \<Longrightarrow> py_norm n i = Some (nat i)"
  by (simp add: py_norm_def)

lemma py_norm_Some_less: "py_norm n i = Some k \<Longrightarrow> k < n"
  by (auto simp: py_norm_def split: if_splits)

lemma py_norm_None_iff: "py_norm n i = None \<longleftrightarrow> (int n \<le> i \<or> i < - int n)"
  by (auto simp: py_norm_def)

lemma set_py_range: "x \<in> set (py_range n) \<longleftrightarrow> 0 \<le> x \<and> x < n"
  by (auto simp: py_range_def)

lemma nth3_update:
  assumes "i < length a" "j < length (a ! i)" "k < length (a ! i ! j)"
    and "i' < length a" "j' < length (a ! i')" "k' < length (a ! i' ! j')"
  shows "a[i := (a ! i)[j := (a ! i ! j)[k := v]]] ! i' ! j' ! k' =
     (if i' = i \<and> j' = j \<and> k' = k then v else a ! i' ! j' ! k')"
proof (cases "i' = i")
  case False
  then show ?thesis by simp
next
  case True
  note i = this
  show ?thesis
  proof (cases "j' = j")
    case False
    with i assms show ?thesis by simp
  next
    case True
    with i assms show ?thesis by (simp add: nth_list_update)
  qed
qed

lemma length3_update:
  "length (a[i := (a ! i)[j := (a ! i ! j)[k := v]]]) = length a"
  "length (a[i := (a ! i)[j := (a ! i ! j)[k := v]]] ! i') = length (a ! i')"
  "length (a[i := (a ! i)[j := (a ! i ! j)[k := v]]] ! i' ! j') = length (a ! i' ! j')"
proof -
  show "length (a[i := (a ! i)[j := (a ! i ! j)[k := v]]]) = length a" by simp
  show "length (a[i := (a ! i)[j := (a ! i ! j)[k := v]]] ! i') = length (a ! i')"
    by (cases "i' = i"; cases "i < length a") (simp_all add: list_update_beyond not_less)
  show "length (a[i := (a ! i)[j := (a ! i ! j)[k := v]]] ! i' ! j') = length (a ! i' ! j')"
    by (cases "i' = i"; cases "i < length a"; cases "j' = j"; cases "j < length (a ! i)")
       (simp_all add: list_update_beyond not_less)
qed

lemma shape3_update:
  "shape3 nx nz a \<Longrightarrow> shape3 nx nz (a[i := (a ! i)[j := (a ! i ! j)[k := v]]])"
  unfolding shape3_def length3_update by simp

lemma set3_shape:
  "shape3 nx nz a \<Longrightarrow> set3 a x z y v = Inr a' \<Longrightarrow> shape3 nx nz a'"
  by (auto simp: set3_def shape3_update split: option.splits)

lemma store_section_shape:
  "shape3 nx nz secs \<Longrightarrow> store_section newBitArray x z sec secs = (r, secs') \<Longrightarrow> shape3 nx nz secs'"
  by (auto simp: store_section_def Let_def set3_shape split: option.splits if_splits sum.splits)

lemma store_section_origin:
  assumes sh: "shape3 nx nz secs" and ok: "origin_ok chunks cxl secs"
    and x: "0 \<le> x" "x < int nx" and z: "0 \<le> z" "z < int nz"
    and chunk: "py_getitem chunks (x + z * cxl) = Inr chunk" and sec: "sec \<in> set (Sections chunk)"
    and st: "store_section newBitArray x z sec secs = (r, secs')"
  shows "origin_ok chunks cxl secs'"
proof (cases "secs' = secs")
  case True
  with ok show ?thesis by simp
next
  case False
  with st obtain raw pal ba where raw: "BlockStates sec = Some raw" "length raw \<noteq> 0"
    and set: "set3 secs x z (Y sec) (Some \<lparr>palette = pal, blockStatesBitArray = ba\<rparr>) = Inr secs'"
    by (auto simp: store_section_def Let_def split: option.splits if_splits sum.splits)
  have hd: "has_data sec" using raw by (simp add: has_data_def)
  let ?i = "nat x" and ?j = "nat z"
  have i: "?i < length secs" and j: "?j < length (secs ! ?i)"
    and len: "length (secs ! ?i ! ?j) = 16"
    using sh x z by (auto simp: shape3_def)
  have nx: "py_norm (length secs) x = Some ?i" using x sh by (simp add: py_norm_in_range shape3_def)
  have nz: "py_norm (length (secs ! ?i)) z = Some ?j"
    using z sh x by (simp add: py_norm_in_range shape3_def)
  from set nx nz len obtain k where k: "py_norm 16 (Y sec) = Some k"
    and secs': "secs' = secs[?i := (secs ! ?i)[?j := (secs ! ?i ! ?j)[k := Some \<lparr>palette = pal, blockStatesBitArray = ba\<rparr>]]]"
    by (auto simp: set3_def split: option.splits)
  have k16: "k < length (secs ! ?i ! ?j)" using k len by (simp add: py_norm_Some_less)
  have sh': "shape3 nx nz secs'" using sh secs' by (simp add: shape3_update)
  show ?thesis
    unfolding origin_ok_def
  proof (intro allI impI)
    fix i' j' k'
    assume b: "i' < length secs'" "j' < length (secs' ! i')" "k' < length (secs' ! i' ! j')"
      and nn: "secs' ! i' ! j' ! k' \<noteq> None"
    have b0: "i' < length secs" "j' < length (secs ! i')" "k' < length (secs ! i' ! j')"
      using b sh sh' by (auto simp: shape3_def)
    have cell: "secs' ! i' ! j' ! k' =
        (if i' = ?i \<and> j' = ?j \<and> k' = k then Some \<lparr>palette = pal, blockStatesBitArray = ba\<rparr>
         else secs ! i' ! j' ! k')"
      unfolding secs' using i j k16 b0 by (rule nth3_update)
    show "\<exists>chunk sec. py_getitem chunks (int i' + int j' * cxl) = Inr chunk \<and>
            sec \<in> set (Sections chunk) \<and> has_data sec \<and> py_norm 16 (Y sec) = Some k'"
    proof (cases "i' = ?i \<and> j' = ?j \<and> k' = k")
      case True
      then have "int i' + int j' * cxl = x + z * cxl" using x z by simp
      with chunk sec hd k True show ?thesis by auto
    next
      case False
      with cell nn have "secs ! i' ! j' ! k' \<noteq> None" by simp
      with ok b0 show ?thesis unfolding origin_ok_def by blast
    qed
  qed
qed

lemma load_sections_inv:
  assumes "sections_inv (nat cxl) (nat czl) chunks cxl secs"
  shows "sections_inv (nat cxl) (nat czl) chunks cxl
           (snd (load_sections newBitArray chunks (cx0, cz0, cxl, czl) secs))"
  unfolding load_sections_def prod.case
proof (rule for_each_invariant
    [where P = "sections_inv (nat cxl) (nat czl) chunks cxl", OF assms], goal_cases)
  case (1 x s r s')
  then have x: "0 \<le> x" "x < cxl" by (simp_all add: set_py_range)
  have "sections_inv (nat cxl) (nat czl) chunks cxl
      (snd (for_each (py_range czl)
        (\<lambda>z secs1. let chunkID = x + z * cxl
           in case py_getitem chunks chunkID of
                Inl e \<Rightarrow> (Inl e, secs1)
              | Inr chunk \<Rightarrow> for_each (Sections chunk) (store_section newBitArray x z) secs1) s))"
  proof (rule for_each_invariant
      [where P = "sections_inv (nat cxl) (nat czl) chunks cxl", OF 1(2)], goal_cases)
    case (1 z t r2 t')
    then have z: "0 \<le> z" "z < czl" by (simp_all add: set_py_range)
    show ?case
    proof (cases "py_getitem chunks (x + z * cxl)")
      case (Inl e)
      with 1 show ?thesis by (simp add: Let_def)
    next
      case (Inr chunk)
      have "sections_inv (nat cxl) (nat czl) chunks cxl
          (snd (for_each (Sections chunk) (store_section newBitArray x z) t))"
      proof (rule for_each_invariant
          [where P = "sections_inv (nat cxl) (nat czl) chunks cxl", OF 1(2)], goal_cases)
        case (1 sec u r3 u')
        then show ?case
          using store_section_shape [of "nat cxl" "nat czl" u newBitArray x z sec r3 u']
            store_section_origin [of "nat cxl" "nat czl" u chunks cxl x z chunk sec newBitArray r3 u']
            x z Inr
          by (simp add: sections_inv_def)
      qed
      with 1 Inr show ?thesis by (simp add: Let_def)
    qed
  qed
  with 1 show ?case by simp
qed

lemma initial_sections_inv:
  "sections_inv nx nz chunks cxl (replicate nx (replicate nz (replicate 16 None)))"
  by (simp add: sections_inv_def shape3_def origin_ok_def)

lemma WorldSlice_init_sections:
  assumes "WorldSlice_init newBitArray getAt chunks x1 z1 x2 z2 hmTypes = Inr ws"
  shows "chunkRect ws = (x1 div 16, z1 div 16, ceil_div16 (x2 - x1), ceil_div16 (z2 - z1)) \<and>
         sections_inv (nat (ceil_div16 (x2 - x1))) (nat (ceil_div16 (z2 - z1))) chunks
           (ceil_div16 (x2 - x1)) (sections ws)"
proof -
  let ?cxl = "ceil_div16 (x2 - x1)" and ?czl = "ceil_div16 (z2 - z1)"
  let ?secs0 = "replicate (nat ?cxl) (replicate (nat ?czl) (replicate 16 None))
      :: 'a CachedSection option list list list"
  let ?crct = "(x1 div 16, z1 div 16, ?cxl, ?czl)"
  from assms have ws: "chunkRect ws = ?crct"
    and "sections ws = snd (load_sections newBitArray chunks ?crct ?secs0)"
    by (auto simp: WorldSlice_init_def Let_def split: prod.splits sum.splits)
  then show ?thesis
    using load_sections_inv [OF initial_sections_inv, of ?cxl ?czl chunks newBitArray "x1 div 16" "z1 div 16"]
    by simp
qed


lemma init_stone_slice:
  "WorldSlice_init BitArray_init BitArray_getAt [stone_chunk] 0 0 16 16 (Some []) = Inr stone_slice"
  by code_simp

lemma init_corrupt_slice:
  "WorldSlice_init BitArray_init BitArray_getAt [corrupt_chunk] 0 0 16 16 (Some []) = Inr corrupt_slice"
  by code_simp

lemma get3_outside:
  assumes "shape3 nx nz a" and "py_norm nx x = None \<or> py_norm nz z = None"
  shows "get3 a x z y = Inl IndexError"
proof (cases "py_norm nx x")
  case None
  with assms(1) show ?thesis by (simp add: get3_def py_getitem_def shape3_def)
next
  case (Some i)
  then have "i < nx" by (rule py_norm_Some_less)
  with assms(1) have "length (a ! i) = nz" by (simp add: shape3_def)
  moreover from Some assms(2) have "py_norm nz z = None" by simp
  ultimately show ?thesis using Some assms(1)
    by (simp add: get3_def py_getitem_def shape3_def)
qed

lemma get3_inside:
  assumes "shape3 nx nz a" and "0 \<le> x" "x < int nx" and "0 \<le> z" "z < int nz"
    and "0 \<le> y" "y < 16"
  shows "get3 a x z y = Inr (a ! nat x ! nat z ! nat y)"
proof -
  have i: "nat x < nx" and j: "nat z < nz" using assms by simp_all
  have l1: "length a = nx" and l2: "length (a ! nat x) = nz"
    and l3: "length (a ! nat x ! nat z) = 16"
    using assms(1) i j by (simp_all add: shape3_def)
  show ?thesis
    using assms l1 l2 l3 by (simp add: get3_def py_getitem_def py_norm_in_range)
qed

subsection \<open>Queries outside the cached chunks\<close>

text \<open>
  C4, as the code has it. For every constructed \<open>WorldSlice\<close> and every coordinate
  whose resolved chunk index \<open>(x // 16) - chunkRect[0]\<close> or
  \<open>(z // 16) - chunkRect[1]\<close> is at or above the number of cached chunks on its axis
  (or below its negation), the lookup raises \<open>IndexError\<close>, which
  \<open>getBlockCompoundAt\<close> catches: it returns \<open>None\<close>, and \<open>getBlockAt\<close> returns
  \<open>"minecraft:void_air"\<close>. No error reaches the caller, and no block of a cached chunk
  is returned.
\<close>

theorem getBlockAt_beyond_cached_rect:
  assumes init: "WorldSlice_init newBitArray getAt0 chunks x1 z1 x2 z2 hmTypes = Inr ws"
    and out: "int (nat (ceil_div16 (x2 - x1))) \<le> x div 16 - x1 div 16 \<or>
              x div 16 - x1 div 16 < - int (nat (ceil_div16 (x2 - x1))) \<or>
              int (nat (ceil_div16 (z2 - z1))) \<le> z div 16 - z1 div 16 \<or>
              z div 16 - z1 div 16 < - int (nat (ceil_div16 (z2 - z1)))"
  shows "getBlockCompoundAt getAt ws x y z = Inr None \<and>
         getBlockAt getAt ws x y z = Inr ''minecraft:void_air''"
proof -
  let ?nx = "nat (ceil_div16 (x2 - x1))" and ?nz = "nat (ceil_div16 (z2 - z1))"
  from WorldSlice_init_sections [OF init]
  have cr: "chunkRect ws = (x1 div 16, z1 div 16, ceil_div16 (x2 - x1), ceil_div16 (z2 - z1))"
    and sh: "shape3 ?nx ?nz (sections ws)"
    by (simp_all add: sections_inv_def)
  from out have "py_norm ?nx (x div 16 - x1 div 16) = None \<or>
                 py_norm ?nz (z div 16 - z1 div 16) = None"
    unfolding py_norm_None_iff by blast
  with sh have "get3 (sections ws) (x div 16 - x1 div 16) (z div 16 - z1 div 16) (y div 16)
      = Inl IndexError"
    by (rule get3_outside)
  then have "getBlockCompoundAt getAt ws x y z = Inr None"
    by (simp add: getBlockCompoundAt_def cr)
  then show ?thesis by (simp add: getBlockAt_def)
qed

theorem getBlockAt_beyond_cached_rect_witness:
  "getBlockCompoundAt BitArray_getAt stone_slice 16 5 0 = Inr None \<and>
   getBlockAt BitArray_getAt stone_slice 16 5 0 = Inr ''minecraft:void_air''"
  using getBlockAt_beyond_cached_rect [OF init_stone_slice, of 16 0 BitArray_getAt 5]
  by (simp add: ceil_div16_def)

text \<open>
  The claim as stated fails. In the slice built for the region from \<open>(0, 0)\<close> to
  \<open>(16, 16)\<close>, whose single chunk has stone in its lowest section, the query at
  \<open>x = 16\<close> (chunk index 1, outside) returns \<open>"minecraft:void_air"\<close> instead of an
  error, and the query at \<open>x = -1\<close> (chunk index \<open>-1\<close>, outside) returns the stone
  of the cached chunk.
\<close>

theorem getBlockAt_outside_rect_no_error:
  "WorldSlice_init BitArray_init BitArray_getAt [stone_chunk] 0 0 16 16 (Some []) = Inr stone_slice \<and>
   getBlockAt BitArray_getAt stone_slice 16 0 0 = Inr ''minecraft:void_air'' \<and>
   getBlockAt BitArray_getAt stone_slice (- 1) 0 0 = Inr ''minecraft:stone''"
  by code_simp

subsection \<open>A block state beyond the palette\<close>

text \<open>
  C5. When the section resolved for a coordinate is cached and its bit array decodes, at
  the block index of that coordinate, to a value that is at least the length of the
  palette, \<open>palette[...]\<close> raises \<open>IndexError\<close>, which nothing catches:
  \<open>getBlockCompoundAt\<close> and \<open>getBlockAt\<close> both end with that exception and return
  no descriptor. (The spec calls this failure CorruptPalette.)
\<close>

theorem getBlockAt_palette_index_out_of_range:
  assumes "get3 (sections ws) (x div 16 - fst (chunkRect ws))
             (z div 16 - fst (snd (chunkRect ws))) (y div 16) = Inr (Some cs)"
    and "getAt (blockStatesBitArray cs) ((y mod 16) * 16 * 16 + (z mod 16) * 16 + x mod 16) = Inr p"
    and "int (length (palette cs)) \<le> p"
  shows "getBlockCompoundAt getAt ws x y z = Inl IndexError \<and>
         getBlockAt getAt ws x y z = Inl IndexError"
proof -
  from assms(3) have "py_norm (length (palette cs)) p = None"
    by (simp add: py_norm_None_iff)
  then have "py_getitem (palette cs) p = Inl IndexError"
    by (simp add: py_getitem_def)
  moreover obtain cx0 cz0 cxl czl where "chunkRect ws = (cx0, cz0, cxl, czl)"
    by (cases "chunkRect ws") auto
  ultimately have "getBlockCompoundAt getAt ws x y z = Inl IndexError"
    using assms(1,2) by (simp add: getBlockCompoundAt_def Let_def)
  then show ?thesis by (simp add: getBlockAt_def)
qed

lemma corrupt_lookup:
  "get3 (sections corrupt_slice) (0 div 16 - fst (chunkRect corrupt_slice))
       (0 div 16 - fst (snd (chunkRect corrupt_slice))) (0 div 16)
     = Inr (Some \<lparr>palette = [stone],
          blockStatesBitArray = \<lparr>bitsPerEntry = 4, arraySize = 4096, longArray = 1 # replicate 255 0\<rparr>\<rparr>)"
  by code_simp

lemma corrupt_decode:
  "BitArray_getAt \<lparr>bitsPerEntry = 4, arraySize = 4096, longArray = 1 # replicate 255 0\<rparr>
      0 = Inr 1"
  by code_simp

theorem getBlockAt_palette_index_out_of_range_witness:
  "getBlockCompoundAt BitArray_getAt corrupt_slice 0 0 0 = Inl IndexError \<and>
   getBlockAt BitArray_getAt corrupt_slice 0 0 0 = Inl IndexError"
  using getBlockAt_palette_index_out_of_range [of corrupt_slice 0 0 0 _ BitArray_getAt 1, OF corrupt_lookup]
  by (simp add: corrupt_decode)

subsection \<open>Sections without block states\<close>

text \<open>
  C9. In a constructed \<open>WorldSlice\<close>, take a coordinate inside the cached chunks (chunk
  indices within the chunk counts, section index within 0..15) such that every section
  of its chunk whose \<open>Y\<close> resolves to that section index carries no block states.
  Then nothing was stored for it during construction, \<open>getBlockCompoundAt\<close> returns
  \<open>None\<close> and \<open>getBlockAt\<close> returns \<open>"minecraft:void_air"\<close>. This holds for every
  \<open>getAt\<close>, also one that always raises: the codec and the palette are not consulted.
\<close>

theorem getBlockAt_empty_section_is_void_air:
  assumes init: "WorldSlice_init newBitArray getAt0 chunks x1 z1 x2 z2 hmTypes = Inr ws"
    and x: "0 \<le> x div 16 - x1 div 16" "x div 16 - x1 div 16 < ceil_div16 (x2 - x1)"
    and z: "0 \<le> z div 16 - z1 div 16" "z div 16 - z1 div 16 < ceil_div16 (z2 - z1)"
    and y: "0 \<le> y div 16" "y div 16 < 16"
    and sentinel: "\<forall>chunk sec.
        py_getitem chunks ((x div 16 - x1 div 16) + (z div 16 - z1 div 16) * ceil_div16 (x2 - x1))
          = Inr chunk \<longrightarrow>
        sec \<in> set (Sections chunk) \<longrightarrow> py_norm 16 (Y sec) = Some (nat (y div 16)) \<longrightarrow>
        \<not> has_data sec"
  shows "getBlockCompoundAt getAt ws x y z = Inr None \<and>
         getBlockAt getAt ws x y z = Inr ''minecraft:void_air''"
proof -
  let ?cxl = "ceil_div16 (x2 - x1)" and ?czl = "ceil_div16 (z2 - z1)"
  let ?X = "x div 16 - x1 div 16" and ?Z = "z div 16 - z1 div 16" and ?Y = "y div 16"
  from WorldSlice_init_sections [OF init]
  have cr: "chunkRect ws = (x1 div 16, z1 div 16, ?cxl, ?czl)"
    and sh: "shape3 (nat ?cxl) (nat ?czl) (sections ws)"
    and ok: "origin_ok chunks ?cxl (sections ws)"
    by (simp_all add: sections_inv_def)
  have xn: "?X < int (nat ?cxl)" and zn: "?Z < int (nat ?czl)"
    using x z by linarith+
  have g: "get3 (sections ws) ?X ?Z ?Y = Inr (sections ws ! nat ?X ! nat ?Z ! nat ?Y)"
    using sh x(1) xn z(1) zn y by (rule get3_inside)
  have i: "nat ?X < nat ?cxl" and j: "nat ?Z < nat ?czl"
    using x z by linarith+
  have b: "nat ?X < length (sections ws)" "nat ?Z < length (sections ws ! nat ?X)"
    "nat ?Y < length (sections ws ! nat ?X ! nat ?Z)"
    using sh i j y by (simp_all add: shape3_def)
  have none: "sections ws ! nat ?X ! nat ?Z ! nat ?Y = None"
  proof (rule ccontr)
    assume "sections ws ! nat ?X ! nat ?Z ! nat ?Y \<noteq> None"
    with ok b obtain chunk sec where
      "py_getitem chunks (int (nat ?X) + int (nat ?Z) * ?cxl) = Inr chunk"
      "sec \<in> set (Sections chunk)" "has_data sec" "py_norm 16 (Y sec) = Some (nat ?Y)"
      unfolding origin_ok_def by blast
    with sentinel x z show False by simp
  qed
  have "getBlockCompoundAt getAt ws x y z = Inr None"
    using g none by (simp add: getBlockCompoundAt_def cr)
  then show ?thesis by (simp add: getBlockAt_def)
qed

theorem getBlockAt_empty_section_is_void_air_witness:
  "getBlockCompoundAt BitArray_getAt stone_slice 3 20 5 = Inr None \<and>
   getBlockAt BitArray_getAt stone_slice 3 20 5 = Inr ''minecraft:void_air''"
  using getBlockAt_empty_section_is_void_air [OF init_stone_slice, of 3 5 20 BitArray_getAt]
  by (simp add: ceil_div16_def py_getitem_def py_norm_def stone_chunk_def stone_section_def
        empty_section_def has_data_def)

subsection \<open>Heightmap samples with a negative row\<close>

text \<open>
  C7. The region from \<open>x = 8\<close> to \<open>x = 24\<close> has \<open>rectOffset[0] = 8\<close> and a
  heightmap of 17 rows. The sample of chunk column \<open>cx = 0, cz = 0\<close> (value 5) has the
  row \<open>-8 + 0 * 16 + 0 = -8\<close>, which is outside the array; numpy counts it from the
  end, so it is not discarded by \<open>except IndexError\<close> but stored in row 9, column 0
  (cell 18 of the 17 by 2 array), the cell of the block at \<open>x = 17\<close>.
\<close>

theorem heightmap_negative_index_wraps:
  "WorldSlice_init BitArray_init BitArray_getAt [partial_chunk] 8 0 24 1 (Some [''MOTION_BLOCKING''])
   = Inr \<lparr>rect = (8, 0, 16, 1), chunkRect = (0, 0, 1, 1), heightmapTypes = [''MOTION_BLOCKING''],
      heightmaps = [(''MOTION_BLOCKING'',
                     \<lparr>nrows = 17, ncols = 2, cells = (replicate 34 0)[18 := 5]\<rparr>)],
      sections = [[replicate 16 None]]\<rparr>"
  by code_simp


end
